theory Spec2Isabelle
  imports Main "HOL-Library.Sublist"
begin

section \<open>Strings, numbers and nullable values of the host language\<close>

text \<open>
  The script in \<^verbatim>\<open>js/main.js\<close> works on JavaScript strings. A string is modelled as
  \<^typ>\<open>string\<close>, holding the bytes of its UTF-8 encoding: the pictographs of the card
  template are written as their byte sequences. A property that the API may deliver as
  \<^verbatim>\<open>null\<close> (description, language, homepage) is a \<^typ>\<open>string option\<close>.
\<close>

definition toLowerCase_char :: "char \<Rightarrow> char" where
  "toLowerCase_char c =
     (case map_of (zip ''ABCDEFGHIJKLMNOPQRSTUVWXYZ'' ''abcdefghijklmnopqrstuvwxyz'') c of
        Some l \<Rightarrow> l
      | None \<Rightarrow> c)"

text \<open>
  \<^verbatim>\<open>String.prototype.toLowerCase\<close>, on the letters A to Z; bytes of other characters
  are kept as they are.
\<close>

definition toLowerCase :: "string \<Rightarrow> string" where
  "toLowerCase s = map toLowerCase_char s"

text \<open>\<^verbatim>\<open>s.includes(t)\<close>: some suffix of \<open>s\<close> starts with \<open>t\<close>.\<close>

fun str_includes :: "string \<Rightarrow> string \<Rightarrow> bool" where
  "str_includes [] t = (t = [])"
| "str_includes (c # s) t = (prefix t (c # s) \<or> str_includes s t)"

text \<open>Decimal digits of a natural number, and \<^verbatim>\<open>String(n)\<close> for an integer \<open>n\<close>.\<close>

fun digits :: "nat \<Rightarrow> string" where
  "digits n =
     (if n < 10 then [''0123456789'' ! n]
      else digits (n div 10) @ [''0123456789'' ! (n mod 10)])"

declare digits.simps [simp del]

definition toString :: "int \<Rightarrow> string" where
  "toString i = (if i < 0 then ''-'' @ digits (nat (- i)) else digits (nat i))"

text \<open>
  Truthiness of a value that is a string or \<^verbatim>\<open>null\<close>: \<^verbatim>\<open>null\<close> and the empty string
  are falsy. This is the test behind \<^verbatim>\<open>x && ...\<close>, \<^verbatim>\<open>x ? ... : ...\<close> and
  \<^verbatim>\<open>x || d\<close> in the script.
\<close>

definition truthy :: "string option \<Rightarrow> bool" where
  "truthy x = (case x of None \<Rightarrow> False | Some s \<Rightarrow> s \<noteq> [])"

definition or_else :: "string option \<Rightarrow> string \<Rightarrow> string" where
  "or_else x d = (case x of None \<Rightarrow> d | Some s \<Rightarrow> if s = [] then d else s)"

section \<open>Escaping\<close>

text \<open>
  \<^verbatim>\<open>escapeHtml\<close> stores the text as the \<^verbatim>\<open>textContent\<close> of a detached element and
  reads its \<^verbatim>\<open>innerHTML\<close> back. The browser serialises the one text node by replacing
  the ampersand, the no-break space (U+00A0, bytes C2 A0), the less-than sign and the
  greater-than sign by their entities; quotation marks are kept.
\<close>

definition escapeChar :: "char \<Rightarrow> string" where
  "escapeChar c =
     (if c = CHR ''&'' then ''&amp;''
      else if c = CHR ''<'' then ''&lt;''
      else if c = CHR ''>'' then ''&gt;''
      else [c])"

fun escapeHtml :: "string \<Rightarrow> string" where
  "escapeHtml [] = []"
| "escapeHtml [c] = escapeChar c"
| "escapeHtml (c # d # s) =
     (if c = CHR 0xC2 \<and> d = CHR 0xA0 then ''&nbsp;'' @ escapeHtml s
      else escapeChar c @ escapeHtml (d # s))"

section \<open>Configuration and data\<close>

definition maxProjects :: nat where
  "maxProjects = 12"

definition animationDelay :: nat where
  "animationDelay = 100"

text \<open>A repository object of the API response, with the properties the script reads.\<close>

record repo =
  name :: string
  description :: "string option"
  language :: "string option"
  stargazers_count :: int
  forks_count :: int
  html_url :: string
  homepage :: "string option"

text \<open>The profile object of the API response.\<close>

record profile =
  public_repos :: int
  followers :: int

section \<open>Project cards\<close>

text \<open>
  The conditional parts of the card template, one definition for each
  \<^verbatim>\<open>${cond ? `...` : ''}\<close> expression of \<^verbatim>\<open>createProjectCard\<close>. The argument
  \<open>lang\<close> is the local constant \<^verbatim>\<open>language\<close>, that is
  \<^verbatim>\<open>project.language || 'Unknown'\<close>.
\<close>

definition languageBadge :: "string \<Rightarrow> string" where
  \<open>languageBadge lang =
     (if lang \<noteq> ''Unknown''
      then ''<span class="tech-badge">'' @ escapeHtml lang @ ''</span>''
      else [])\<close>

definition starsBadge :: "int \<Rightarrow> string" where
  \<open>starsBadge stars =
     (if stars > 0
      then ''<span class="tech-badge" aria-label="'' @ toString stars @ '' stars">'' @
           [CHR 0xE2, CHR 0xAD, CHR 0x90] @ '' '' @ toString stars @ ''</span>''
      else [])\<close>

definition forksBadge :: "int \<Rightarrow> string" where
  \<open>forksBadge forks =
     (if forks > 0
      then ''<span class="tech-badge" aria-label="'' @ toString forks @ '' forks">'' @
           [CHR 0xF0, CHR 0x9F, CHR 0x94, CHR 0x80] @ '' '' @ toString forks @ ''</span>''
      else [])\<close>

definition homepageLink :: "repo \<Rightarrow> string" where
  \<open>homepageLink project =
     (case homepage project of
        None \<Rightarrow> []
      | Some h \<Rightarrow>
          if h = [] then []
          else
            ''\<newline>'' @
            ''                        <a href="'' @ h @ ''" \<newline>'' @
            ''                           target="_blank" \<newline>'' @
            ''                           rel="noopener noreferrer" \<newline>'' @
            ''                           class="project-link" \<newline>'' @
            ''                           aria-label="View '' @ name project @ '' live demo"\<newline>'' @
            ''                           title="Live Demo">\<newline>'' @
            ''                            '' @ [CHR 0xF0, CHR 0x9F, CHR 0x9A, CHR 0x80] @ ''\<newline>'' @
            ''                        </a>\<newline>'' @
            ''                    '')\<close>

text \<open>
  The text shown as description: the local constant \<^verbatim>\<open>description\<close>, that is
  \<^verbatim>\<open>project.description || 'No description available'\<close>.
\<close>

definition descriptionText :: "repo \<Rightarrow> string" where
  "descriptionText project = or_else (description project) ''No description available''"

text \<open>
  \<^verbatim>\<open>createProjectCard(project, index)\<close>: the template literal, line by line. The name is
  escaped inside the title span and inserted as it is inside the two
  \<^verbatim>\<open>aria-label\<close> attributes; the lower-cased language, \<^verbatim>\<open>html_url\<close> and
  \<^verbatim>\<open>homepage\<close> are inserted as they are.
\<close>

definition createProjectCard :: "repo \<Rightarrow> nat \<Rightarrow> string" where
  \<open>createProjectCard project index =
     (let lang = or_else (language project) ''Unknown'';
          stars = stargazers_count project;
          forks = forks_count project
      in
      ''\<newline>'' @
      ''        <article class="project-card" \<newline>'' @
      ''                 data-language="'' @ toLowerCase lang @ ''" \<newline>'' @
      ''                 style="animation-delay: '' @ digits (index * animationDelay) @ ''ms"\<newline>'' @
      ''                 role="listitem">\<newline>'' @
      ''            <div class="project-header">\<newline>'' @
      ''                <h3 class="project-title">\<newline>'' @
      ''                    <span aria-hidden="true">'' @
      [CHR 0xF0, CHR 0x9F, CHR 0x93, CHR 0xA6] @ ''</span>\<newline>'' @
      ''                    '' @ ''<span>'' @ escapeHtml (name project) @ ''</span>\<newline>'' @
      ''                </h3>\<newline>'' @
      ''                '' @ ''<p class="project-description">'' @
      escapeHtml (descriptionText project) @ ''</p>\<newline>'' @
      ''            </div>\<newline>'' @
      ''            <div class="project-footer">\<newline>'' @
      ''                '' @ ''<div class="project-tech">\<newline>'' @
      ''                    '' @ languageBadge lang @ ''\<newline>'' @
      ''                    '' @ starsBadge stars @ ''\<newline>'' @
      ''                    '' @ forksBadge forks @ ''\<newline>'' @
      ''                </div>\<newline>'' @
      ''                <div class="project-links">\<newline>'' @
      ''                    <a href="'' @ html_url project @ ''" \<newline>'' @
      ''                       target="_blank" \<newline>'' @
      ''                       rel="noopener noreferrer" \<newline>'' @
      ''                       class="project-link" \<newline>'' @
      ''                       '' @ ''aria-label="View '' @ name project @ '' on GitHub"\<newline>'' @
      ''                       title="View on GitHub">\<newline>'' @
      ''                        '' @ [CHR 0xF0, CHR 0x9F, CHR 0x94, CHR 0x97] @ ''\<newline>'' @
      ''                    '' @ ''</a>\<newline>'' @
      ''                    '' @ homepageLink project @ ''\<newline>'' @
      ''                </div>\<newline>'' @
      ''            </div>\<newline>'' @
      ''        </article>\<newline>'' @
      ''    '')\<close>

section \<open>The page\<close>

text \<open>
  The document is modelled by the elements the script looks up by id, each with what the
  script last put there, and by the filter buttons. \<open>Html h\<close> is the string assigned to
  \<^verbatim>\<open>innerHTML\<close>; \<open>CountUp n\<close> is a counter on which \<^verbatim>\<open>animateNumber\<close> started a
  count-up whose last frame shows \<open>n\<close>. An id that is not in the domain of \<open>elements\<close>
  is an element the document does not have (\<^verbatim>\<open>getElementById\<close> returns \<^verbatim>\<open>null\<close>).
  A filter button is its \<^verbatim>\<open>data-filter\<close> value and whether it is marked active.
\<close>

datatype content = Html string | CountUp int

record page =
  elements :: "string \<rightharpoonup> content"
  filterButtons :: "(string \<times> bool) list"

definition showLoading :: "page \<Rightarrow> page" where
  \<open>showLoading pg =
     (case elements pg ''projectsContainer'' of
        None \<Rightarrow> pg
      | Some _ \<Rightarrow>
          pg\<lparr>elements := (elements pg)(''projectsContainer'' \<mapsto> Html (
            ''\<newline>'' @
            ''            <div class="loading" role="status" aria-live="polite">\<newline>'' @
            ''                <div class="spinner" aria-hidden="true"></div>\<newline>'' @
            ''                <p>Loading projects from GitHub...</p>\<newline>'' @
            ''            </div>\<newline>'' @
            ''        ''))\<rparr>)\<close>

definition errorMarkup :: "string \<Rightarrow> string" where
  \<open>errorMarkup message =
     ''\<newline>'' @
     ''            <div class="error-message" role="alert">\<newline>'' @
     ''                <p style="text-align: center; color: #ff6b6b;">'' @
     escapeHtml message @ ''</p>\<newline>'' @
     ''            </div>\<newline>'' @
     ''        ''\<close>

definition showError :: "string \<Rightarrow> page \<Rightarrow> page" where
  "showError message pg =
     (case elements pg ''projectsContainer'' of
        None \<Rightarrow> pg
      | Some _ \<Rightarrow>
          pg\<lparr>elements := (elements pg)(''projectsContainer'' \<mapsto> Html (errorMarkup message))\<rparr>)"

text \<open>
  \<^verbatim>\<open>displayProjects\<close>. \<open>cards\<close> is the array
  \<^verbatim>\<open>projects.slice(0, CONFIG.maxProjects).map((project, index) => createProjectCard(project, index))\<close>
  before it is joined. \<^verbatim>\<open>animateProjects\<close> then sets inline styles on the inserted
  cards; it adds and removes no card and is left out.
\<close>

definition cards :: "repo list \<Rightarrow> string list" where
  "cards projects =
     map (\<lambda>(index, project). createProjectCard project index)
       (enumerate 0 (take maxProjects projects))"

definition noProjectsMarkup :: string where
  \<open>noProjectsMarkup = ''<p class="no-projects">No projects found matching your criteria.</p>''\<close>

definition displayProjects :: "repo list \<Rightarrow> page \<Rightarrow> page" where
  "displayProjects projects pg =
     (case elements pg ''projectsContainer'' of
        None \<Rightarrow> pg
      | Some _ \<Rightarrow>
          if length projects = 0
          then pg\<lparr>elements := (elements pg)(''projectsContainer'' \<mapsto> Html noProjectsMarkup)\<rparr>
          else pg\<lparr>elements := (elements pg)(''projectsContainer'' \<mapsto> Html (concat (cards projects)))\<rparr>)"

section \<open>Statistics\<close>

record stats =
  repos :: int
  followers :: int
  stars :: int
  forks :: int

text \<open>
  The object \<^verbatim>\<open>stats\<close> of \<^verbatim>\<open>updateStats\<close>; \<^verbatim>\<open>reduce\<close> with the initial value 0 is a
  left fold. The counts are integers, added exactly.
\<close>

definition updateStats_stats :: "profile \<Rightarrow> repo list \<Rightarrow> stats" where
  "updateStats_stats userData reposData =
     \<lparr> repos = public_repos userData,
       followers = profile.followers userData,
       stars = foldl (\<lambda>sum repo. sum + stargazers_count repo) 0 reposData,
       forks = foldl (\<lambda>sum repo. sum + forks_count repo) 0 reposData \<rparr>"

definition animateNumber :: "string \<Rightarrow> int \<Rightarrow> page \<Rightarrow> page" where
  "animateNumber elementId targetValue pg =
     (case elements pg elementId of
        None \<Rightarrow> pg
      | Some _ \<Rightarrow> pg\<lparr>elements := (elements pg)(elementId \<mapsto> CountUp targetValue)\<rparr>)"

definition updateStats :: "profile \<Rightarrow> repo list \<Rightarrow> page \<Rightarrow> page" where
  "updateStats userData reposData pg =
     (let s = updateStats_stats userData reposData;
          pg1 = animateNumber ''repoCount'' (repos s) pg;
          pg2 = animateNumber ''followerCount'' (followers s) pg1;
          pg3 = animateNumber ''totalStars'' (stars s) pg2
      in animateNumber ''totalForks'' (forks s) pg3)"

section \<open>View state and the joint fetch\<close>

record state =
  allProjects :: "repo list"
  currentFilter :: string
  isLoading :: bool

definition initial_state :: state where
  "initial_state = \<lparr> allProjects = [], currentFilter = ''all'', isLoading = False \<rparr>"

text \<open>
  What a request comes back with: \<^verbatim>\<open>fetch\<close> rejects (transport failure), or it
  resolves with a response that has the flag \<^verbatim>\<open>ok\<close> and a body that
  \<^verbatim>\<open>response.json()\<close> parses (\<open>Some\<close>) or rejects (\<open>None\<close>).
\<close>

datatype 'a response = NetworkFailure | Response bool "'a option"

datatype error = Error string | TypeError | SyntaxError

definition fetchGitHubUser :: "profile response \<Rightarrow> error + profile" where
  "fetchGitHubUser r =
     (case r of
        NetworkFailure \<Rightarrow> Inl TypeError
      | Response ok body \<Rightarrow>
          if \<not> ok then Inl (Error ''Failed to fetch user data'')
          else (case body of None \<Rightarrow> Inl SyntaxError | Some userData \<Rightarrow> Inr userData))"

definition fetchGitHubRepos :: "repo list response \<Rightarrow> error + repo list" where
  "fetchGitHubRepos r =
     (case r of
        NetworkFailure \<Rightarrow> Inl TypeError
      | Response ok body \<Rightarrow>
          if \<not> ok then Inl (Error ''Failed to fetch repositories'')
          else (case body of None \<Rightarrow> Inl SyntaxError | Some reposData \<Rightarrow> Inr reposData))"

text \<open>
  \<^verbatim>\<open>Promise.all\<close> of the two requests: both values, or a rejection as soon as one of
  them rejects. Which of two rejections comes first depends on timing; the handler does
  not look at it.
\<close>

definition Promise_all :: "error + 'a \<Rightarrow> error + 'b \<Rightarrow> error + ('a \<times> 'b)" where
  "Promise_all a b =
     (case a of
        Inl e \<Rightarrow> Inl e
      | Inr x \<Rightarrow> (case b of Inl e \<Rightarrow> Inl e | Inr y \<Rightarrow> Inr (x, y)))"

text \<open>
  \<^verbatim>\<open>fetchGitHubData\<close> runs in two parts, with the \<^verbatim>\<open>await\<close> between them: the part
  before it (busy flag, loading placeholder) and the part after it, once both requests
  have settled. Clicks on filter buttons may be handled in between.
\<close>

definition fetchGitHubData_before :: "state \<times> page \<Rightarrow> state \<times> page" where
  "fetchGitHubData_before = (\<lambda>(st, pg). (st\<lparr>isLoading := True\<rparr>, showLoading pg))"

definition fetchGitHubData_after ::
  "profile response \<Rightarrow> repo list response \<Rightarrow> state \<times> page \<Rightarrow> state \<times> page" where
  "fetchGitHubData_after u r = (\<lambda>(st, pg).
     (case Promise_all (fetchGitHubUser u) (fetchGitHubRepos r) of
        Inr (userData, reposData) \<Rightarrow>
          (let pg1 = updateStats userData reposData pg;
               st1 = st\<lparr>allProjects := reposData\<rparr>;
               pg2 = displayProjects reposData pg1
           in (st1\<lparr>isLoading := False\<rparr>, pg2))
      | Inl e \<Rightarrow>
          (st\<lparr>isLoading := False\<rparr>,
           showError ''Failed to load GitHub data. Please try again later.'' pg)))"

definition fetchGitHubData ::
  "profile response \<Rightarrow> repo list response \<Rightarrow> state \<times> page \<Rightarrow> state \<times> page" where
  "fetchGitHubData u r = (\<lambda>(st, pg).
     if isLoading st then (st, pg)
     else fetchGitHubData_after u r (fetchGitHubData_before (st, pg)))"

section \<open>Filtering\<close>

text \<open>The local variable \<^verbatim>\<open>filteredProjects\<close> of \<^verbatim>\<open>filterProjects\<close>.\<close>

definition filteredProjects :: "repo list \<Rightarrow> string \<Rightarrow> repo list" where
  "filteredProjects projects flt =
     (if flt \<noteq> ''all''
      then filter (\<lambda>project.
             case language project of
               None \<Rightarrow> False
             | Some l \<Rightarrow> l \<noteq> [] \<and> str_includes (toLowerCase l) (toLowerCase flt)) projects
      else projects)"

definition filterProjects :: "string \<Rightarrow> state \<times> page \<Rightarrow> state \<times> page" where
  "filterProjects flt = (\<lambda>(st, pg).
     (let st1 = st\<lparr>currentFilter := flt\<rparr>;
          pg1 = pg\<lparr>filterButtons := map (\<lambda>(f, _). (f, f = flt)) (filterButtons pg)\<rparr>
      in (st1, displayProjects (filteredProjects (allProjects st1) flt) pg1)))"

text \<open>
  What can happen to the page controller: the page becomes ready and the fetch starts
  (unless one is outstanding), the two requests settle, or a filter button is clicked.
\<close>

datatype event =
    Ready
  | Settled "profile response" "repo list response"
  | Click string

fun step :: "state \<times> page \<Rightarrow> event \<Rightarrow> state \<times> page" where
  "step (st, pg) Ready = (if isLoading st then (st, pg) else fetchGitHubData_before (st, pg))"
| "step (st, pg) (Settled u r) = fetchGitHubData_after u r (st, pg)"
| "step (st, pg) (Click flt) = filterProjects flt (st, pg)"

section \<open>Resume upload\<close>

record jsfile =
  file_name :: string
  file_type :: string
  file_size :: nat

text \<open>
  The status line, the download button and the object URLs that are alive. The handler
  is registered only when the file input, the status line and the button all exist.
\<close>

record upload =
  status_textContent :: string
  status_color :: string
  downloadBtn_href :: string
  downloadBtn_download :: string
  objectURLs :: "string set"

text \<open>
  The \<^verbatim>\<open>change\<close> handler. \<open>url\<close> is the URL that \<^verbatim>\<open>URL.createObjectURL(file)\<close>
  issues when the handler reaches that call.
\<close>

definition resumeChange :: "string \<Rightarrow> jsfile option \<Rightarrow> upload \<Rightarrow> upload" where
  "resumeChange url selected w =
     (case selected of
        None \<Rightarrow> w
      | Some f \<Rightarrow>
          if file_type f \<noteq> ''application/pdf''
          then w\<lparr>status_textContent := [CHR 0xE2, CHR 0x9D, CHR 0x8C] @ '' Please upload a PDF file'',
                 status_color := ''#ff6b6b''\<rparr>
          else if file_size f > 5 * 1024 * 1024
          then w\<lparr>status_textContent := [CHR 0xE2, CHR 0x9D, CHR 0x8C] @ '' File size must be less than 5MB'',
                 status_color := ''#ff6b6b''\<rparr>
          else w\<lparr>objectURLs := insert url (objectURLs w),
                 downloadBtn_href := url,
                 downloadBtn_download := file_name f,
                 status_textContent := [CHR 0xE2, CHR 0x9C, CHR 0x93] @ '' Uploaded: '' @ file_name f,
                 status_color := ''#43e97b''\<rparr>)"

text \<open>The callback that the handler schedules for one minute later.\<close>

definition resumeCleanup :: "string \<Rightarrow> upload \<Rightarrow> upload" where
  "resumeCleanup url w =
     (if downloadBtn_href w \<noteq> url then w\<lparr>objectURLs := objectURLs w - {url}\<rparr> else w)"

section \<open>Sample data\<close>

text \<open>
  Three repositories with the star counts 3, 0, 5 and the fork counts 1, 2, 0; the second
  has no language, no description and an empty homepage, as the API reports it for a
  repository without one.
\<close>

definition repo_portfolio :: repo where
  "repo_portfolio =
     \<lparr> name = ''portfolio'', description = Some ''Personal site'', language = Some ''TypeScript'',
       stargazers_count = 3, forks_count = 1,
       html_url = ''https://github.com/ravingodbole/portfolio'',
       homepage = Some ''https://ravingodbole.github.io'' \<rparr>"

definition repo_notes :: repo where
  "repo_notes =
     \<lparr> name = ''notes'', description = None, language = None,
       stargazers_count = 0, forks_count = 2,
       html_url = ''https://github.com/ravingodbole/notes'',
       homepage = Some [] \<rparr>"

definition repo_scripts :: repo where
  "repo_scripts =
     \<lparr> name = ''scripts'', description = Some ''Small tools'', language = Some ''Python'',
       stargazers_count = 5, forks_count = 0,
       html_url = ''https://github.com/ravingodbole/scripts'',
       homepage = None \<rparr>"

text \<open>
  A profile, a page that has the container, the four counters and three filter buttons,
  a view state after an earlier successful fetch, a repository whose language is the
  string \<^verbatim>\<open>Unknown\<close>, a repository whose name is an image tag, three files around the
  size limit and an upload widget that still points to the shipped file.
\<close>

definition profile0 :: profile where
  "profile0 = \<lparr> public_repos = 3, followers = 7 \<rparr>"

definition page0 :: page where
  "page0 =
     \<lparr> elements =
         [''projectsContainer'' \<mapsto> Html [], ''repoCount'' \<mapsto> Html ''0'',
          ''followerCount'' \<mapsto> Html ''0'', ''totalStars'' \<mapsto> Html ''0'',
          ''totalForks'' \<mapsto> Html ''0''],
       filterButtons = [(''all'', True), (''python'', False), (''javascript'', False)] \<rparr>"

definition state_loaded :: state where
  "state_loaded = \<lparr> allProjects = [repo_scripts], currentFilter = ''python'', isLoading = False \<rparr>"

definition repo_unknown :: repo where
  "repo_unknown =
     \<lparr> name = ''mystery'', description = Some ''Experiments'', language = Some ''Unknown'',
       stargazers_count = 0, forks_count = 0,
       html_url = ''https://github.com/ravingodbole/mystery'',
       homepage = None \<rparr>"

definition repo_img :: repo where
  "repo_img =
     \<lparr> name = ''<img src=x onerror=alert(1)>'', description = None, language = Some ''JavaScript'',
       stargazers_count = 0, forks_count = 0,
       html_url = ''https://github.com/ravingodbole/img'',
       homepage = None \<rparr>"

definition pdf_exact :: jsfile where
  "pdf_exact = \<lparr> file_name = ''resume.pdf'', file_type = ''application/pdf'', file_size = 5242880 \<rparr>"

definition pdf_over :: jsfile where
  "pdf_over = \<lparr> file_name = ''resume.pdf'', file_type = ''application/pdf'', file_size = 5242881 \<rparr>"

definition png_small :: jsfile where
  "png_small = \<lparr> file_name = ''photo.png'', file_type = ''image/png'', file_size = 10 \<rparr>"

definition upload0 :: upload where
  "upload0 =
     \<lparr> status_textContent = [], status_color = [],
       downloadBtn_href = ''assets/resume.pdf'', downloadBtn_download = ''resume.pdf'',
       objectURLs = {} \<rparr>"

section \<open>Filtering: properties\<close>

text \<open>
  \<^verbatim>\<open>includes\<close> is the contiguous-sublist relation of the list library.
\<close>

lemma str_includes_sublist: "str_includes s t \<longleftrightarrow> sublist t s"
  by (induction s) (simp_all add: sublist_Cons_right)

text \<open>
  Claim C7. With the tag \<^verbatim>\<open>"all"\<close> the filter returns the stored list itself: the same
  repositories in the same order, none dropped.
\<close>

theorem filter_all_identity: "filteredProjects L ''all'' = L"
  by (simp add: filteredProjects_def)

text \<open>
  Claim C3. For a tag other than \<^verbatim>\<open>"all"\<close> the filter returns the repositories of the
  list, in the order of the list, whose language is present and, lower-cased, has the
  lower-cased tag as a contiguous part. Present is what the script tests: neither
  \<^verbatim>\<open>null\<close> nor the empty string. A repository without a language is never returned.
\<close>

theorem filter_by_tag:
  assumes "flt \<noteq> ''all''"
  shows "filteredProjects L flt =
           filter (\<lambda>r. truthy (language r) \<and>
                        (\<exists>l. language r = Some l \<and> sublist (toLowerCase flt) (toLowerCase l))) L
         \<and> subseq (filteredProjects L flt) L
         \<and> (\<forall>r \<in> set (filteredProjects L flt). language r \<noteq> None)"
proof -
  have eq: "filteredProjects L flt =
           filter (\<lambda>r. truthy (language r) \<and>
                        (\<exists>l. language r = Some l \<and> sublist (toLowerCase flt) (toLowerCase l))) L"
    using assms unfolding filteredProjects_def truthy_def
    by (auto intro!: filter_cong split: option.splits simp: str_includes_sublist)
  show ?thesis
    unfolding eq by (auto simp: truthy_def)
qed

theorem filter_by_tag_witness:
  "''SCRIPT'' \<noteq> ''all'' \<and>
   filteredProjects [repo_scripts, repo_notes, repo_portfolio] ''SCRIPT'' = [repo_portfolio] \<and>
   filteredProjects [repo_scripts, repo_notes, repo_portfolio] ''t'' = [repo_scripts, repo_portfolio] \<and>
   subseq (filteredProjects [repo_scripts, repo_notes, repo_portfolio] ''t'')
     [repo_scripts, repo_notes, repo_portfolio]"
proof -
  have a: "''SCRIPT'' \<noteq> ''all''" and b: "''t'' \<noteq> ''all''" by simp_all
  have c: "filteredProjects [repo_scripts, repo_notes, repo_portfolio] ''SCRIPT'' = [repo_portfolio]"
    by code_simp
  have d: "filteredProjects [repo_scripts, repo_notes, repo_portfolio] ''t'' = [repo_scripts, repo_portfolio]"
    by code_simp
  from filter_by_tag [OF b, of "[repo_scripts, repo_notes, repo_portfolio]"]
  have e: "subseq (filteredProjects [repo_scripts, repo_notes, repo_portfolio] ''t'')
     [repo_scripts, repo_notes, repo_portfolio]" by blast
  from a c d e show ?thesis by blast
qed

text \<open>
  Claim C10. The empty tag is not \<^verbatim>\<open>"all"\<close>, and every string includes the empty
  string: the filter then returns exactly the repositories whose language is present
  (neither \<^verbatim>\<open>null\<close> nor empty), in the order of the list.
\<close>

theorem filter_empty_tag:
  "filteredProjects L [] = filter (\<lambda>r. truthy (language r)) L"
  unfolding filteredProjects_def truthy_def
  by (auto intro!: filter_cong split: option.splits simp: str_includes_sublist toLowerCase_def)

section \<open>Statistics: properties\<close>

lemma foldl_plus: "foldl (\<lambda>sum repo. sum + f repo) (a::int) L = a + sum_list (map f L)"
  by (induction L arbitrary: a) simp_all

lemma animateNumber_elements:
  "elements (animateNumber k v pg) k' =
     (if k' = k then (case elements pg k of None \<Rightarrow> None | Some _ \<Rightarrow> Some (CountUp v))
      else elements pg k')"
  by (simp add: animateNumber_def split: option.splits)

lemma displayProjects_other:
  "k \<noteq> ''projectsContainer'' \<Longrightarrow> elements (displayProjects L pg) k = elements pg k"
  by (simp add: displayProjects_def split: option.splits)

lemma updateStats_totalStars:
  "elements (updateStats userData L pg) ''totalStars'' =
     (case elements pg ''totalStars'' of
        None \<Rightarrow> None
      | Some _ \<Rightarrow> Some (CountUp (sum_list (map stargazers_count L))))"
  by (simp add: updateStats_def Let_def animateNumber_elements updateStats_stats_def foldl_plus
      split: option.splits)

lemma updateStats_totalForks:
  "elements (updateStats userData L pg) ''totalForks'' =
     (case elements pg ''totalForks'' of
        None \<Rightarrow> None
      | Some _ \<Rightarrow> Some (CountUp (sum_list (map forks_count L))))"
  by (simp add: updateStats_def Let_def animateNumber_elements updateStats_stats_def foldl_plus
      split: option.splits)

lemma after_both_ok:
  "fetchGitHubData_after (Response True (Some userData)) (Response True (Some L)) (st, pg) =
     (st\<lparr>allProjects := L, isLoading := False\<rparr>, displayProjects L (updateStats userData L pg))"
  by (simp add: fetchGitHubData_after_def fetchGitHubUser_def fetchGitHubRepos_def Promise_all_def)

text \<open>
  Claim C6. The star total and the fork total are the sums of the two counts over the
  whole fetched list; star counts 3, 0, 5 and fork counts 1, 2, 0 give 8 and 3.
  \<^verbatim>\<open>updateStats\<close> starts the count-up of the star counter and of the fork counter
  (when the page has them) towards these sums over the whole list it is given. When both
  requests succeed, the counters are set to the sums over the whole fetched list whatever
  the view state holds, so whatever the active filter is, and however many of the
  repositories \<^verbatim>\<open>displayProjects\<close> then shows.
\<close>

theorem stats_totals:
  "stars (updateStats_stats userData L) = sum_list (map stargazers_count L) \<and>
   forks (updateStats_stats userData L) = sum_list (map forks_count L) \<and>
   stars (updateStats_stats userData [repo_portfolio, repo_notes, repo_scripts]) = 8 \<and>
   forks (updateStats_stats userData [repo_portfolio, repo_notes, repo_scripts]) = 3 \<and>
   snd (fetchGitHubData_after (Response True (Some userData)) (Response True (Some L)) (st, pg)) =
     displayProjects L (updateStats userData L pg) \<and>
   elements (updateStats userData L pg) ''totalStars'' =
     (case elements pg ''totalStars'' of
        None \<Rightarrow> None
      | Some _ \<Rightarrow> Some (CountUp (sum_list (map stargazers_count L)))) \<and>
   elements (updateStats userData L pg) ''totalForks'' =
     (case elements pg ''totalForks'' of
        None \<Rightarrow> None
      | Some _ \<Rightarrow> Some (CountUp (sum_list (map forks_count L)))) \<and>
   elements (snd (fetchGitHubData_after (Response True (Some userData)) (Response True (Some L))
       (st, pg))) ''totalStars'' =
     (case elements pg ''totalStars'' of
        None \<Rightarrow> None
      | Some _ \<Rightarrow> Some (CountUp (sum_list (map stargazers_count L)))) \<and>
   elements (snd (fetchGitHubData_after (Response True (Some userData)) (Response True (Some L))
       (st, pg))) ''totalForks'' =
     (case elements pg ''totalForks'' of
        None \<Rightarrow> None
      | Some _ \<Rightarrow> Some (CountUp (sum_list (map forks_count L))))"
proof -
  have 1: "stars (updateStats_stats userData L) = sum_list (map stargazers_count L)"
    by (simp add: updateStats_stats_def foldl_plus)
  have 2: "forks (updateStats_stats userData L) = sum_list (map forks_count L)"
    by (simp add: updateStats_stats_def foldl_plus)
  have 3: "stars (updateStats_stats userData [repo_portfolio, repo_notes, repo_scripts]) = 8"
    by (simp add: updateStats_stats_def repo_portfolio_def repo_notes_def repo_scripts_def)
  have 4: "forks (updateStats_stats userData [repo_portfolio, repo_notes, repo_scripts]) = 3"
    by (simp add: updateStats_stats_def repo_portfolio_def repo_notes_def repo_scripts_def)
  have 5: "snd (fetchGitHubData_after (Response True (Some userData)) (Response True (Some L)) (st, pg)) =
     displayProjects L (updateStats userData L pg)"
    by (simp add: after_both_ok)
  have 6: "elements (snd (fetchGitHubData_after (Response True (Some userData))
       (Response True (Some L)) (st, pg))) ''totalStars'' =
     (case elements pg ''totalStars'' of
        None \<Rightarrow> None
      | Some _ \<Rightarrow> Some (CountUp (sum_list (map stargazers_count L))))"
    by (simp add: after_both_ok displayProjects_other updateStats_totalStars)
  have 7: "elements (snd (fetchGitHubData_after (Response True (Some userData))
       (Response True (Some L)) (st, pg))) ''totalForks'' =
     (case elements pg ''totalForks'' of
        None \<Rightarrow> None
      | Some _ \<Rightarrow> Some (CountUp (sum_list (map forks_count L))))"
    by (simp add: after_both_ok displayProjects_other updateStats_totalForks)
  from 1 2 3 4 5 6 7 updateStats_totalStars [of userData L pg] updateStats_totalForks [of userData L pg]
  show ?thesis by blast
qed

text \<open>
  Thirteen repositories with three stars and one fork each, fetched while the filter is
  \<^verbatim>\<open>python\<close>: the counters go to 39 and 13, the sums over all thirteen.
\<close>

theorem stats_totals_witness:
  "currentFilter state_loaded = ''python'' \<and>
   elements (updateStats profile0 (replicate 13 repo_portfolio) page0) ''totalStars'' =
     Some (CountUp 39) \<and>
   elements (updateStats profile0 (replicate 13 repo_portfolio) page0) ''totalForks'' =
     Some (CountUp 13) \<and>
   elements (snd (fetchGitHubData_after (Response True (Some profile0))
       (Response True (Some (replicate 13 repo_portfolio))) (state_loaded, page0))) ''totalStars'' =
     Some (CountUp 39) \<and>
   elements (snd (fetchGitHubData_after (Response True (Some profile0))
       (Response True (Some (replicate 13 repo_portfolio))) (state_loaded, page0))) ''totalForks'' =
     Some (CountUp 13)"
proof -
  have a: "elements page0 ''totalStars'' = Some (Html ''0'') \<and>
           elements page0 ''totalForks'' = Some (Html ''0'')"
    by (simp add: page0_def)
  have b: "sum_list (map stargazers_count (replicate 13 repo_portfolio)) = 39 \<and>
           sum_list (map forks_count (replicate 13 repo_portfolio)) = 13"
    by (simp add: sum_list_replicate repo_portfolio_def)
  have c: "currentFilter state_loaded = ''python''"
    by (simp add: state_loaded_def)
  note t = stats_totals [of profile0 "replicate 13 repo_portfolio" state_loaded page0]
  from t have 1: "elements (updateStats profile0 (replicate 13 repo_portfolio) page0) ''totalStars'' =
     (case elements page0 ''totalStars'' of
        None \<Rightarrow> None
      | Some _ \<Rightarrow> Some (CountUp (sum_list (map stargazers_count (replicate 13 repo_portfolio)))))"
    by blast
  from t have 2: "elements (updateStats profile0 (replicate 13 repo_portfolio) page0) ''totalForks'' =
     (case elements page0 ''totalForks'' of
        None \<Rightarrow> None
      | Some _ \<Rightarrow> Some (CountUp (sum_list (map forks_count (replicate 13 repo_portfolio)))))"
    by blast
  from t have 3: "elements (snd (fetchGitHubData_after (Response True (Some profile0))
       (Response True (Some (replicate 13 repo_portfolio))) (state_loaded, page0))) ''totalStars'' =
     (case elements page0 ''totalStars'' of
        None \<Rightarrow> None
      | Some _ \<Rightarrow> Some (CountUp (sum_list (map stargazers_count (replicate 13 repo_portfolio)))))"
    by blast
  from t have 4: "elements (snd (fetchGitHubData_after (Response True (Some profile0))
       (Response True (Some (replicate 13 repo_portfolio))) (state_loaded, page0))) ''totalForks'' =
     (case elements page0 ''totalForks'' of
        None \<Rightarrow> None
      | Some _ \<Rightarrow> Some (CountUp (sum_list (map forks_count (replicate 13 repo_portfolio)))))"
    by blast
  from a b have 5: "(case elements page0 ''totalStars'' of
        None \<Rightarrow> None
      | Some _ \<Rightarrow> Some (CountUp (sum_list (map stargazers_count (replicate 13 repo_portfolio))))) =
      Some (CountUp 39)"
    by (simp only: option.case)
  from a b have 6: "(case elements page0 ''totalForks'' of
        None \<Rightarrow> None
      | Some _ \<Rightarrow> Some (CountUp (sum_list (map forks_count (replicate 13 repo_portfolio))))) =
      Some (CountUp 13)"
    by (simp only: option.case)
  from c 1 2 3 4 show ?thesis
    unfolding 5 6 by blast
qed

section \<open>Rendering: properties\<close>

lemma cards_nth:
  "cards L = map (\<lambda>i. createProjectCard (L ! i) i) [0..<min (length L) 12]"
  by (rule nth_equalityI) (simp_all add: cards_def maxProjects_def nth_enumerate_eq)

text \<open>
  Claim C4. The cards are those of the first \<open>min (length L) 12\<close> entries, entry \<open>i\<close>
  rendered with index \<open>i\<close>, in the order of the list: twelve cards for a longer list,
  one card for each entry otherwise. The container, when the page has it, receives the
  cards joined, or the placeholder when the list is empty.
\<close>

theorem display_cap:
  "cards L = map (\<lambda>i. createProjectCard (L ! i) i) [0..<min (length L) 12] \<and>
   length (cards L) = min (length L) 12 \<and>
   elements (displayProjects L pg) ''projectsContainer'' =
     (case elements pg ''projectsContainer'' of
        None \<Rightarrow> None
      | Some _ \<Rightarrow> Some (Html (if L = [] then noProjectsMarkup else concat (cards L))))"
proof -
  have 1: "cards L = map (\<lambda>i. createProjectCard (L ! i) i) [0..<min (length L) 12]"
    by (rule cards_nth)
  have 2: "length (cards L) = min (length L) 12"
    by (simp add: cards_def maxProjects_def)
  have 3: "elements (displayProjects L pg) ''projectsContainer'' =
     (case elements pg ''projectsContainer'' of
        None \<Rightarrow> None
      | Some _ \<Rightarrow> Some (Html (if L = [] then noProjectsMarkup else concat (cards L))))"
    by (simp add: displayProjects_def split: option.splits)
  from 1 2 3 show ?thesis by blast
qed

theorem display_cap_witness:
  "length (cards (replicate 13 repo_notes)) = 12 \<and>
   length (cards [repo_portfolio, repo_notes]) = 2 \<and>
   cards [repo_portfolio, repo_notes] =
     [createProjectCard repo_portfolio 0, createProjectCard repo_notes 1]"
proof -
  have "[0..<2] = [0, Suc 0]"
    by (simp add: upt_rec)
  with display_cap [of "replicate 13 repo_notes"] display_cap [of "[repo_portfolio, repo_notes]"]
  show ?thesis by simp
qed

subsection \<open>Where the parts of a card are\<close>

lemma sublist_skip: "sublist xs ys \<Longrightarrow> sublist xs (zs @ ys)"
  by (auto simp: sublist_def) (metis append.assoc)

lemma prefix_step: "prefix xs ys \<Longrightarrow> prefix (a @ xs) (a @ ys)"
  by simp

lemma card_title:
  \<open>sublist (''<span>'' @ escapeHtml (name p) @ ''</span>'') (createProjectCard p i)\<close>
  unfolding createProjectCard_def Let_def
  by ((rule prefix_imp_sublist, rule prefix_step, (simp; fail)) | rule sublist_skip)+

lemma card_description:
  \<open>sublist (''<p class="project-description">'' @ escapeHtml (descriptionText p) @ ''</p>'')
     (createProjectCard p i)\<close>
  unfolding createProjectCard_def Let_def
  by ((rule prefix_imp_sublist, rule prefix_step, (simp; fail)) | rule sublist_skip)+

lemma card_tech:
  \<open>sublist
     (''<div class="project-tech">\<newline>'' @
      ''                    '' @ languageBadge (or_else (language p) ''Unknown'') @ ''\<newline>'' @
      ''                    '' @ starsBadge (stargazers_count p) @ ''\<newline>'' @
      ''                    '' @ forksBadge (forks_count p) @ ''\<newline>'' @
      ''                </div>'')
     (createProjectCard p i)\<close>
  unfolding createProjectCard_def Let_def
  by ((rule prefix_imp_sublist, rule prefix_step, (simp; fail)) | rule sublist_skip)+

lemma card_label:
  \<open>sublist (''aria-label="View '' @ name p @ '' on GitHub"'') (createProjectCard p i)\<close>
  unfolding createProjectCard_def Let_def
  by ((rule prefix_imp_sublist, rule prefix_step, (simp; fail)) | rule sublist_skip)+

lemma card_links_end:
  \<open>sublist
     (''</a>\<newline>'' @
      ''                    '' @ homepageLink p @ ''\<newline>'' @
      ''                </div>'')
     (createProjectCard p i)\<close>
  unfolding createProjectCard_def Let_def
  by ((rule prefix_imp_sublist, rule prefix_step, (simp; fail)) | rule sublist_skip)+

text \<open>What \<^verbatim>\<open>escapeHtml\<close> returns has no angle bracket.\<close>

lemma escapeChar_no_angle: "CHR ''<'' \<notin> set (escapeChar c) \<and> CHR ''>'' \<notin> set (escapeChar c)"
  by (simp add: escapeChar_def)

lemma escapeHtml_no_angle: "CHR ''<'' \<notin> set (escapeHtml s) \<and> CHR ''>'' \<notin> set (escapeHtml s)"
  by (induction s rule: escapeHtml.induct) (simp_all add: escapeChar_no_angle)

text \<open>
  Claim C5, as the script has it. The technology block of every card holds the three
  badge parts, the link block ends with the homepage part, and the description paragraph
  holds the escaped description text. The language badge is there exactly when the
  language is present (neither \<^verbatim>\<open>null\<close> nor empty) and is not the string
  \<^verbatim>\<open>Unknown\<close>, which the script uses as its mark for a missing language; the star badge
  exactly when the star count is positive; the fork badge exactly when the fork count is
  positive; the homepage link exactly when the homepage is present (neither \<^verbatim>\<open>null\<close>
  nor empty). The description text is the fixed placeholder when the description is
  absent (\<^verbatim>\<open>null\<close> or empty), and the description itself otherwise.
\<close>

theorem card_parts:
  \<open>sublist
     (''<div class="project-tech">\<newline>'' @
      ''                    '' @ languageBadge (or_else (language p) ''Unknown'') @ ''\<newline>'' @
      ''                    '' @ starsBadge (stargazers_count p) @ ''\<newline>'' @
      ''                    '' @ forksBadge (forks_count p) @ ''\<newline>'' @
      ''                </div>'')
     (createProjectCard p i) \<and>
   sublist
     (''</a>\<newline>'' @
      ''                    '' @ homepageLink p @ ''\<newline>'' @
      ''                </div>'')
     (createProjectCard p i) \<and>
   sublist (''<p class="project-description">'' @ escapeHtml (descriptionText p) @ ''</p>'')
     (createProjectCard p i) \<and>
   (languageBadge (or_else (language p) ''Unknown'') \<noteq> [] \<longleftrightarrow>
      truthy (language p) \<and> language p \<noteq> Some ''Unknown'') \<and>
   (starsBadge (stargazers_count p) \<noteq> [] \<longleftrightarrow> stargazers_count p > 0) \<and>
   (forksBadge (forks_count p) \<noteq> [] \<longleftrightarrow> forks_count p > 0) \<and>
   (homepageLink p \<noteq> [] \<longleftrightarrow> truthy (homepage p)) \<and>
   descriptionText p =
     (if truthy (description p) then the (description p) else ''No description available'')\<close>
proof -
  have 1: "languageBadge (or_else (language p) ''Unknown'') \<noteq> [] \<longleftrightarrow>
      truthy (language p) \<and> language p \<noteq> Some ''Unknown''"
    by (simp add: languageBadge_def or_else_def truthy_def split: option.splits)
  have 2: "starsBadge (stargazers_count p) \<noteq> [] \<longleftrightarrow> stargazers_count p > 0"
    by (simp add: starsBadge_def)
  have 3: "forksBadge (forks_count p) \<noteq> [] \<longleftrightarrow> forks_count p > 0"
    by (simp add: forksBadge_def)
  have 4: "homepageLink p \<noteq> [] \<longleftrightarrow> truthy (homepage p)"
    by (simp add: homepageLink_def truthy_def split: option.splits)
  have 5: "descriptionText p =
     (if truthy (description p) then the (description p) else ''No description available'')"
    by (simp add: descriptionText_def or_else_def truthy_def split: option.splits)
  from card_tech [of p i] card_links_end [of p i] card_description [of p i] 1 2 3 4 5
  show ?thesis by blast
qed

theorem card_parts_witness:
  "languageBadge (or_else (language repo_portfolio) ''Unknown'') \<noteq> [] \<and>
   starsBadge (stargazers_count repo_portfolio) \<noteq> [] \<and>
   forksBadge (forks_count repo_portfolio) \<noteq> [] \<and>
   homepageLink repo_portfolio \<noteq> [] \<and>
   descriptionText repo_portfolio \<noteq> ''No description available'' \<and>
   languageBadge (or_else (language repo_notes) ''Unknown'') = [] \<and>
   starsBadge (stargazers_count repo_notes) = [] \<and>
   homepageLink repo_notes = [] \<and>
   descriptionText repo_notes = ''No description available''"
  using card_parts [of repo_portfolio 0] card_parts [of repo_notes 0]
  by (simp add: repo_portfolio_def repo_notes_def truthy_def)

text \<open>
  The claim as it is worded, a language badge whenever the language is present, fails for
  a repository whose language is the string \<^verbatim>\<open>Unknown\<close>: its card has an empty
  technology block.
\<close>

theorem language_badge_counterexample:
  \<open>language repo_unknown = Some ''Unknown'' \<and>
   truthy (language repo_unknown) \<and>
   languageBadge (or_else (language repo_unknown) ''Unknown'') = [] \<and>
   sublist
     (''<div class="project-tech">\<newline>'' @
      ''                    \<newline>'' @
      ''                    \<newline>'' @
      ''                    \<newline>'' @
      ''                </div>'')
     (createProjectCard repo_unknown 0)\<close>
proof -
  have 1: "language repo_unknown = Some ''Unknown''"
    by (simp add: repo_unknown_def)
  have 2: "truthy (language repo_unknown)"
    by (simp add: repo_unknown_def truthy_def)
  have 3: "languageBadge (or_else (language repo_unknown) ''Unknown'') = []"
    by (simp add: repo_unknown_def or_else_def languageBadge_def)
  have 4: \<open>sublist
     (''<div class="project-tech">\<newline>'' @
      ''                    \<newline>'' @
      ''                    \<newline>'' @
      ''                    \<newline>'' @
      ''                </div>'')
     (createProjectCard repo_unknown 0)\<close>
    using card_tech [of repo_unknown 0]
    by (simp add: repo_unknown_def or_else_def languageBadge_def starsBadge_def forksBadge_def)
  from 1 2 3 4 show ?thesis by blast
qed

text \<open>
  Claim C1. The script escapes the name inside the title span only. In the
  \<^verbatim>\<open>aria-label\<close> of the repository link the name stands as it came: for the repository
  named \<^verbatim>\<open><img src=x onerror=alert(1)>\<close> the card holds the name with its angle
  brackets, next to the escaped copy in the title.
\<close>

theorem raw_name_in_card:
  \<open>sublist ''aria-label="View <img src=x onerror=alert(1)> on GitHub"''
     (createProjectCard repo_img 0) \<and>
   sublist ''<span>&lt;img src=x onerror=alert(1)&gt;</span>''
     (createProjectCard repo_img 0)\<close>
proof -
  have n: "name repo_img = ''<img src=x onerror=alert(1)>''"
    by (simp add: repo_img_def)
  have e: "escapeHtml ''<img src=x onerror=alert(1)>'' = ''&lt;img src=x onerror=alert(1)&gt;''"
    by (simp add: escapeChar_def)
  have 1: \<open>sublist ''aria-label="View <img src=x onerror=alert(1)> on GitHub"''
     (createProjectCard repo_img 0)\<close>
    using card_label [of repo_img 0] unfolding n by simp
  have 2: \<open>sublist ''<span>&lt;img src=x onerror=alert(1)&gt;</span>''
     (createProjectCard repo_img 0)\<close>
    using card_title [of repo_img 0] unfolding n e by simp
  from 1 2 show ?thesis by blast
qed

section \<open>The joint fetch: properties\<close>

lemma fetchGitHubUser_fails:
  "isl (fetchGitHubUser u) \<longleftrightarrow> u = NetworkFailure \<or> (\<exists>b. u = Response False b) \<or> u = Response True None"
  by (auto simp: fetchGitHubUser_def split: response.splits option.splits)

lemma fetchGitHubRepos_fails:
  "isl (fetchGitHubRepos r) \<longleftrightarrow> r = NetworkFailure \<or> (\<exists>b. r = Response False b) \<or> r = Response True None"
  by (auto simp: fetchGitHubRepos_def split: response.splits option.splits)

lemma Promise_all_fails:
  "isl (Promise_all a b) \<longleftrightarrow> isl a \<or> isl b"
  by (auto simp: Promise_all_def split: sum.splits)

lemma after_failure:
  assumes "isl (fetchGitHubUser u) \<or> isl (fetchGitHubRepos r)"
  shows "fetchGitHubData_after u r (st, pg) =
           (st\<lparr>isLoading := False\<rparr>,
            showError ''Failed to load GitHub data. Please try again later.'' pg)"
proof -
  from assms have "isl (Promise_all (fetchGitHubUser u) (fetchGitHubRepos r))"
    by (simp add: Promise_all_fails)
  then obtain e where "Promise_all (fetchGitHubUser u) (fetchGitHubRepos r) = Inl e"
    by (cases "Promise_all (fetchGitHubUser u) (fetchGitHubRepos r)") simp_all
  then show ?thesis by (simp add: fetchGitHubData_after_def)
qed

lemma after_success:
  assumes "fetchGitHubUser u = Inr userData" and "fetchGitHubRepos r = Inr reposData"
  shows "fetchGitHubData_after u r (st, pg) =
           (st\<lparr>allProjects := reposData, isLoading := False\<rparr>,
            displayProjects reposData (updateStats userData reposData pg))"
  using assms by (simp add: fetchGitHubData_after_def Promise_all_def)

lemma showError_showLoading_elements:
  "elements (showError m (showLoading pg)) =
     (case elements pg ''projectsContainer'' of
        None \<Rightarrow> elements pg
      | Some _ \<Rightarrow> (elements pg)(''projectsContainer'' \<mapsto> Html (errorMarkup m)))"
  by (simp add: showError_def showLoading_def split: option.splits)

text \<open>
  Claim C2. When the profile request or the repository request fails (the transport
  fails, the status is not a success, or the body does not parse), the stored list and
  the filter stay as they were. When the call is not turned away by the busy flag, so
  that the requests are made at all, it ends with the flag cleared, the container (if the
  page has it) shows the one error message, and no other element of the page is touched:
  nothing of a request that succeeded is shown or stored.
\<close>

theorem joint_fetch_failure:
  assumes "isl (fetchGitHubUser u) \<or> isl (fetchGitHubRepos r)"
  shows "allProjects (fst (fetchGitHubData u r (st, pg))) = allProjects st \<and>
         currentFilter (fst (fetchGitHubData u r (st, pg))) = currentFilter st \<and>
         (\<not> isLoading st \<longrightarrow>
            \<not> isLoading (fst (fetchGitHubData u r (st, pg))) \<and>
            elements (snd (fetchGitHubData u r (st, pg))) ''projectsContainer'' =
              (case elements pg ''projectsContainer'' of
                 None \<Rightarrow> None
               | Some _ \<Rightarrow>
                   Some (Html (errorMarkup ''Failed to load GitHub data. Please try again later.''))) \<and>
            (\<forall>k. k \<noteq> ''projectsContainer'' \<longrightarrow>
               elements (snd (fetchGitHubData u r (st, pg))) k = elements pg k))"
proof (cases "isLoading st")
  case True
  then show ?thesis by (simp add: fetchGitHubData_def)
next
  case False
  then have eq: "fetchGitHubData u r (st, pg) =
      (st\<lparr>isLoading := False\<rparr>,
       showError ''Failed to load GitHub data. Please try again later.'' (showLoading pg))"
    using after_failure [OF assms]
    by (simp add: fetchGitHubData_def fetchGitHubData_before_def)
  show ?thesis
    unfolding eq
    by (simp add: showError_showLoading_elements False split: option.splits)
qed

theorem joint_fetch_failure_witness:
  "isl (fetchGitHubRepos (Response False None)) \<and>
   \<not> isLoading state_loaded \<and>
   allProjects (fst (fetchGitHubData (Response True (Some profile0)) (Response False None)
     (state_loaded, page0))) = [repo_scripts] \<and>
   elements (snd (fetchGitHubData (Response True (Some profile0)) (Response False None)
     (state_loaded, page0))) ''projectsContainer'' =
     Some (Html (errorMarkup ''Failed to load GitHub data. Please try again later.'')) \<and>
   elements (snd (fetchGitHubData (Response True (Some profile0)) (Response False None)
     (state_loaded, page0))) ''totalStars'' = Some (Html ''0'')"
proof -
  have h: "isl (fetchGitHubUser (Response True (Some profile0))) \<or>
           isl (fetchGitHubRepos (Response False None))"
    by (simp add: fetchGitHubRepos_def)
  have i: "isl (fetchGitHubRepos (Response False None))"
    by (simp add: fetchGitHubRepos_def)
  from joint_fetch_failure [OF h, of state_loaded page0] i
  show ?thesis
    by (simp add: state_loaded_def page0_def)
qed

section \<open>The view state: properties\<close>

text \<open>
  Claim C9, as the script has it. Of the stored list and the active filter, a step of
  the page controller changes only this: requests that both succeed replace the stored
  list by the fetched one and leave the filter as it is; a click on a filter button
  replaces the filter and leaves the stored list and the busy flag as they are. A failed
  fetch and the start of a fetch change neither.
\<close>

theorem view_state_frame:
  "(fetchGitHubUser u = Inr userData \<and> fetchGitHubRepos r = Inr reposData \<longrightarrow>
      allProjects (fst (step (st, pg) (Settled u r))) = reposData \<and>
      currentFilter (fst (step (st, pg) (Settled u r))) = currentFilter st) \<and>
   (isl (fetchGitHubUser u) \<or> isl (fetchGitHubRepos r) \<longrightarrow>
      allProjects (fst (step (st, pg) (Settled u r))) = allProjects st \<and>
      currentFilter (fst (step (st, pg) (Settled u r))) = currentFilter st) \<and>
   allProjects (fst (step (st, pg) (Click flt))) = allProjects st \<and>
   currentFilter (fst (step (st, pg) (Click flt))) = flt \<and>
   isLoading (fst (step (st, pg) (Click flt))) = isLoading st \<and>
   allProjects (fst (step (st, pg) Ready)) = allProjects st \<and>
   currentFilter (fst (step (st, pg) Ready)) = currentFilter st"
proof -
  have 1: "fetchGitHubUser u = Inr userData \<and> fetchGitHubRepos r = Inr reposData \<longrightarrow>
      allProjects (fst (step (st, pg) (Settled u r))) = reposData \<and>
      currentFilter (fst (step (st, pg) (Settled u r))) = currentFilter st"
    by (simp add: after_success)
  have 2: "isl (fetchGitHubUser u) \<or> isl (fetchGitHubRepos r) \<longrightarrow>
      allProjects (fst (step (st, pg) (Settled u r))) = allProjects st \<and>
      currentFilter (fst (step (st, pg) (Settled u r))) = currentFilter st"
    by (auto simp: after_failure)
  have 3: "allProjects (fst (step (st, pg) (Click flt))) = allProjects st \<and>
   currentFilter (fst (step (st, pg) (Click flt))) = flt \<and>
   isLoading (fst (step (st, pg) (Click flt))) = isLoading st"
    by (simp add: filterProjects_def)
  have 4: "allProjects (fst (step (st, pg) Ready)) = allProjects st \<and>
   currentFilter (fst (step (st, pg) Ready)) = currentFilter st"
    by (simp add: fetchGitHubData_before_def)
  from 1 2 3 4 show ?thesis by blast
qed

theorem view_state_frame_witness:
  "fetchGitHubUser (Response True (Some profile0)) = Inr profile0 \<and>
   fetchGitHubRepos (Response True (Some [repo_portfolio])) = Inr [repo_portfolio] \<and>
   allProjects (fst (step (state_loaded, page0)
     (Settled (Response True (Some profile0)) (Response True (Some [repo_portfolio]))))) = [repo_portfolio] \<and>
   currentFilter (fst (step (state_loaded, page0)
     (Settled (Response True (Some profile0)) (Response True (Some [repo_portfolio]))))) = ''python'' \<and>
   isl (fetchGitHubUser NetworkFailure) \<and>
   allProjects (fst (step (state_loaded, page0)
     (Settled NetworkFailure (Response True (Some [repo_portfolio]))))) = [repo_scripts] \<and>
   currentFilter (fst (step (state_loaded, page0) (Click ''javascript''))) = ''javascript'' \<and>
   allProjects (fst (step (state_loaded, page0) (Click ''javascript''))) = [repo_scripts]"
proof -
  have a: "fetchGitHubUser (Response True (Some profile0)) = Inr profile0"
    by (simp add: fetchGitHubUser_def)
  have b: "fetchGitHubRepos (Response True (Some [repo_portfolio])) = Inr [repo_portfolio]"
    by (simp add: fetchGitHubRepos_def)
  have c: "isl (fetchGitHubUser NetworkFailure)"
    by (simp add: fetchGitHubUser_def)
  from a b
    view_state_frame [of "Response True (Some profile0)" profile0
      "Response True (Some [repo_portfolio])" "[repo_portfolio]" state_loaded page0 "''javascript''"]
  have d: "allProjects (fst (step (state_loaded, page0)
     (Settled (Response True (Some profile0)) (Response True (Some [repo_portfolio]))))) = [repo_portfolio] \<and>
   currentFilter (fst (step (state_loaded, page0)
     (Settled (Response True (Some profile0)) (Response True (Some [repo_portfolio]))))) = ''python'' \<and>
   currentFilter (fst (step (state_loaded, page0) (Click ''javascript''))) = ''javascript'' \<and>
   allProjects (fst (step (state_loaded, page0) (Click ''javascript''))) = [repo_scripts]"
    by (simp add: state_loaded_def)
  from c
    view_state_frame [of NetworkFailure profile0
      "Response True (Some [repo_portfolio])" "[repo_portfolio]" state_loaded page0 "''javascript''"]
  have e: "allProjects (fst (step (state_loaded, page0)
     (Settled NetworkFailure (Response True (Some [repo_portfolio]))))) = [repo_scripts]"
    by (simp add: state_loaded_def)
  from a b c d e show ?thesis by blast
qed

text \<open>
  The claim as it is worded, a successful fetch resets the filter to \<^verbatim>\<open>"all"\<close>, fails
  when a filter button is clicked while the requests are outstanding: the fetch then
  stores the list and the filter stays what the click made it.
\<close>

theorem fetch_resets_filter_counterexample:
  "allProjects (fst (foldl step (initial_state, page0)
     [Ready, Click ''python'',
      Settled (Response True (Some profile0)) (Response True (Some [repo_portfolio, repo_scripts]))])) =
     [repo_portfolio, repo_scripts] \<and>
   currentFilter (fst (foldl step (initial_state, page0)
     [Ready, Click ''python'',
      Settled (Response True (Some profile0)) (Response True (Some [repo_portfolio, repo_scripts]))])) =
     ''python'' \<and>
   currentFilter (fst (foldl step (initial_state, page0)
     [Ready, Click ''python'',
      Settled (Response True (Some profile0)) (Response True (Some [repo_portfolio, repo_scripts]))])) \<noteq>
     ''all''"
  by (simp add: initial_state_def fetchGitHubData_before_def filterProjects_def
      fetchGitHubData_after_def fetchGitHubUser_def fetchGitHubRepos_def Promise_all_def Let_def)

section \<open>Resume upload: properties\<close>

text \<open>
  Claim C8. A selected file is accepted exactly when its type is
  \<^verbatim>\<open>application/pdf\<close> and its size is at most \<open>5 * 1024 * 1024\<close> bytes: the button then
  points to the new object URL under the file's name. In every other case the address
  and the download name of the button, and the set of object URLs, are what they were,
  and the status line turns to the error colour.
\<close>

theorem upload_validation:
  "(file_type f = ''application/pdf'' \<and> file_size f \<le> 5 * 1024 * 1024 \<longrightarrow>
      downloadBtn_href (resumeChange url (Some f) w) = url \<and>
      downloadBtn_download (resumeChange url (Some f) w) = file_name f \<and>
      status_color (resumeChange url (Some f) w) = ''#43e97b'') \<and>
   (\<not> (file_type f = ''application/pdf'' \<and> file_size f \<le> 5 * 1024 * 1024) \<longrightarrow>
      downloadBtn_href (resumeChange url (Some f) w) = downloadBtn_href w \<and>
      downloadBtn_download (resumeChange url (Some f) w) = downloadBtn_download w \<and>
      objectURLs (resumeChange url (Some f) w) = objectURLs w \<and>
      status_color (resumeChange url (Some f) w) = ''#ff6b6b'')"
  by (simp add: resumeChange_def)

theorem upload_validation_witness:
  "downloadBtn_href (resumeChange ''blob:1'' (Some pdf_exact) upload0) = ''blob:1'' \<and>
   downloadBtn_download (resumeChange ''blob:1'' (Some pdf_exact) upload0) = ''resume.pdf'' \<and>
   downloadBtn_href (resumeChange ''blob:1'' (Some pdf_over) upload0) = ''assets/resume.pdf'' \<and>
   downloadBtn_download (resumeChange ''blob:1'' (Some pdf_over) upload0) = ''resume.pdf'' \<and>
   downloadBtn_href (resumeChange ''blob:1'' (Some png_small) upload0) = ''assets/resume.pdf'' \<and>
   status_color (resumeChange ''blob:1'' (Some png_small) upload0) = ''#ff6b6b''"
  using upload_validation [of pdf_exact "''blob:1''" upload0]
    upload_validation [of pdf_over "''blob:1''" upload0]
    upload_validation [of png_small "''blob:1''" upload0]
  by (simp add: pdf_exact_def pdf_over_def png_small_def upload0_def)

end
